theory Spec2Isabelle
  imports Main
begin

section \<open>Go library functions used by kmsctl\<close>

text \<open>
  Go strings are byte sequences; \<open>string\<close> (a list of characters) is used for them.
  The functions of package \<open>strings\<close> that the commands call are written out here on
  byte lists. All separators and cut sets the program passes are ASCII, so working on
  bytes and working on code points agree.
\<close>

definition HasPrefix :: "string \<Rightarrow> string \<Rightarrow> bool" where
  "HasPrefix s p = (take (length p) s = p)"

definition HasSuffix :: "string \<Rightarrow> string \<Rightarrow> bool" where
  "HasSuffix s p = (length p \<le> length s \<and> drop (length s - length p) s = p)"

definition TrimPrefix :: "string \<Rightarrow> string \<Rightarrow> string" where
  "TrimPrefix s p = (if HasPrefix s p then drop (length p) s else s)"

text \<open>\<open>strings.TrimLeft(s, cutset)\<close> removes every leading character that occurs in
  \<open>cutset\<close>; the second argument is a set of characters, not a prefix.\<close>

definition TrimLeft :: "string \<Rightarrow> string \<Rightarrow> string" where
  "TrimLeft s cutset = dropWhile (\<lambda>c. c \<in> set cutset) s"

fun Contains :: "string \<Rightarrow> string \<Rightarrow> bool" where
  "Contains [] sub = (sub = [])"
| "Contains (c # cs) sub = (HasPrefix (c # cs) sub \<or> Contains cs sub)"

text \<open>\<open>filepath.Base\<close> on a Unix path: the last element, after trailing separators are
  dropped; \<open>.\<close> for the empty path and \<open>/\<close> for a path of separators only.\<close>

definition Base :: "string \<Rightarrow> string" where
  "Base p =
     (if p = [] then ''.''
      else let q = rev (dropWhile (\<lambda>c. c = CHR ''/'') (rev p));
               b = rev (takeWhile (\<lambda>c. c \<noteq> CHR ''/'') (rev q))
           in if b = [] then ''/'' else b)"

text \<open>\<open>path.Clean\<close> and \<open>path.Dir\<close> (\<open>filepath.Dir\<close> is the same function on Unix).
  \<open>Clean\<close> works element by element: empty elements and \<open>.\<close> vanish, \<open>..\<close> removes the
  element before it (it is kept at the front of a relative path and dropped at the root).\<close>

fun splitSlash :: "string \<Rightarrow> string \<Rightarrow> string list" where
  "splitSlash acc [] = [rev acc]"
| "splitSlash acc (c # cs) =
     (if c = CHR ''/'' then rev acc # splitSlash [] cs else splitSlash (c # acc) cs)"

fun cleanElems :: "bool \<Rightarrow> string list \<Rightarrow> string list \<Rightarrow> string list" where
  "cleanElems rooted out [] = rev out"
| "cleanElems rooted out (e # es) =
     (if e = [] \<or> e = ''.'' then cleanElems rooted out es
      else if e = ''..'' then
        (case out of
           [] \<Rightarrow> if rooted then cleanElems rooted out es else cleanElems rooted [e] es
         | t # ts \<Rightarrow> if t = ''..'' then cleanElems rooted (e # out) es
                     else cleanElems rooted ts es)
      else cleanElems rooted (e # out) es)"

fun joinSlash :: "string list \<Rightarrow> string" where
  "joinSlash [] = []"
| "joinSlash [e] = e"
| "joinSlash (e # es) = e @ ''/'' @ joinSlash es"

definition Clean :: "string \<Rightarrow> string" where
  "Clean p =
     (if p = [] then ''.''
      else let rooted = (hd p = CHR ''/'');
               body = joinSlash (cleanElems rooted [] (splitSlash [] p))
           in if rooted then ''/'' @ body
              else if body = [] then ''.'' else body)"

definition Dir :: "string \<Rightarrow> string" where
  "Dir p = Clean (rev (dropWhile (\<lambda>c. c \<noteq> CHR ''/'') (rev p)))"

section \<open>Errors and results\<close>

text \<open>
  A Go \<open>error\<close> is either the package-level sentinel \<open>errKmsNotFound\<close> (compared by
  identity in \<open>hasKmsAlias\<close>), an error built by \<open>fmt.Errorf\<close>, or an error handed up
  by the AWS SDK, the regexp package or the operating system.
\<close>

datatype error = errKmsNotFound | Errorf string | External string

fun Error :: "error \<Rightarrow> string" where
  "Error errKmsNotFound = ''kms alias does not exist''"
| "Error (Errorf m) = m"
| "Error (External m) = m"

text \<open>What a command hands back to \<open>handleCommand\<close>: \<open>nil\<close>, an error, or a run-time
  panic raised by dereferencing a nil pointer.\<close>

datatype status = Ok | Failed error | NilDereference

section \<open>Data model\<close>

text \<open>
  Modelled from the spec: the SDK types \<open>kms.AliasListEntry\<close>, \<open>s3.Bucket\<close>,
  \<open>s3.Object\<close> and \<open>kms.KeyMetadata\<close> are declared outside the repository. The data
  model of the specification gives an alias a name and an optional target key id, a
  bucket a name and a creation date, and an object entry a key, size, storage class,
  owner and modification time. The one pointer field whose absence the code tests,
  \<open>TargetKeyId\<close>, is an option.
\<close>

record AliasListEntry =
  AliasName :: string
  TargetKeyId :: "string option"

record Bucket =
  Name :: string
  CreationDate :: string

record Object =
  Key :: string
  Size :: nat
  StorageClass :: string
  ETag :: string
  Owner :: string
  LastModified :: string

record KeyMetadata =
  Arn :: string
  AWSAccountId :: string

section \<open>The outside world\<close>

text \<open>
  Every call that leaves the process (the KMS and S3 clients, the file system, the
  editor, the output formatter) is recorded as an event, in order. The answers come from
  an environment, which may look at everything that happened so far; this covers a
  provider whose answers change after a deletion as well as one that fails at any call.
\<close>

text \<open>A value of the \<open>map[string]interface{}\<close> handed to the output formatter.\<close>

datatype field = Str string | Num nat | Flag bool

datatype event =
    ListAliases
  | CreateKey string
  | CreateAlias string string
  | DeleteAlias string
  | ScheduleKeyDeletion string nat
  | ListBuckets
  | CreateBucket string
  | DeleteBucket string
  | ListObjects string string
  | GetObject string string
  | DeleteObject string string
  | Upload string string string string
  | RegexpCompile string
  | MkdirAll string
  | OpenFileTrunc string
  | Write string string
  | OpenRead string
  | ExpandFiles string
  | TempFile string string
  | Close string
  | RunCommand string string
  | Remove string
  | Log "(string \<times> field) list"

type_synonym trace = "event list"

record env =
  fails :: "trace \<Rightarrow> event \<Rightarrow> error option"
  aliasesOf :: "trace \<Rightarrow> error + AliasListEntry list"
  bucketsOf :: "trace \<Rightarrow> error + Bucket list"
  objectsOf :: "trace \<Rightarrow> string \<Rightarrow> string \<Rightarrow> error + Object list"
  contentOf :: "trace \<Rightarrow> string \<Rightarrow> string \<Rightarrow> error + string"
  createdKey :: "trace \<Rightarrow> string \<Rightarrow> error + KeyMetadata"
  tempName :: "trace \<Rightarrow> string \<Rightarrow> string \<Rightarrow> error + string"
  expanded :: "trace \<Rightarrow> string \<Rightarrow> error + string list"
  compiled :: "string \<Rightarrow> error + (string \<Rightarrow> bool)"
  clock :: "trace \<Rightarrow> string"

text \<open>A call whose only answer is an error or nil.\<close>

definition call :: "env \<Rightarrow> event \<Rightarrow> trace \<Rightarrow> error option \<times> trace" where
  "call E ev tr = (fails E tr ev, tr @ [ev])"

text \<open>A \<open>for ... range\<close> loop whose body may return an error: the first status other
  than \<open>Ok\<close> ends the loop and the command.\<close>

fun forEach :: "('a \<Rightarrow> trace \<Rightarrow> status \<times> trace) \<Rightarrow> 'a list \<Rightarrow> trace \<Rightarrow> status \<times> trace" where
  "forEach body [] tr = (Ok, tr)"
| "forEach body (x # xs) tr =
     (case body x tr of
        (Ok, tr') \<Rightarrow> forEach body xs tr'
      | (r, tr') \<Rightarrow> (r, tr'))"

text \<open>\<open>getPaths\<close>: the arguments, or the single empty path when there are none.\<close>

definition getPaths :: "string list \<Rightarrow> string list" where
  "getPaths args = (if length args \<le> 0 then [[]] else args)"

section \<open>Key management commands\<close>

definition kmsKeys :: "env \<Rightarrow> trace \<Rightarrow> (error + AliasListEntry list) \<times> trace" where
  "kmsKeys E tr =
     (case aliasesOf E tr of
        Inl e \<Rightarrow> (Inl e, tr @ [ListAliases])
      | Inr aliases \<Rightarrow> (Inr aliases, tr @ [ListAliases]))"

text \<open>The loop of \<open>getKmsAlias\<close>: the first entry whose trimmed name is the requested
  one, \<open>None\<close> for the nil pointer left when the loop finds nothing.\<close>

fun firstAlias :: "string \<Rightarrow> AliasListEntry list \<Rightarrow> AliasListEntry option" where
  "firstAlias name [] = None"
| "firstAlias name (x # xs) =
     (if TrimLeft (AliasName x) ''alias/'' = name then Some x else firstAlias name xs)"

definition getKmsAlias :: "env \<Rightarrow> string \<Rightarrow> trace \<Rightarrow> (error + AliasListEntry) \<times> trace" where
  "getKmsAlias E name tr =
     (case kmsKeys E tr of
        (Inl e, tr') \<Rightarrow> (Inl e, tr')
      | (Inr aliases, tr') \<Rightarrow>
          (case firstAlias name aliases of
             None \<Rightarrow> (Inl errKmsNotFound, tr')
           | Some alias \<Rightarrow> (Inr alias, tr')))"

definition hasKmsAlias :: "env \<Rightarrow> string \<Rightarrow> trace \<Rightarrow> (error + bool) \<times> trace" where
  "hasKmsAlias E name tr =
     (case getKmsAlias E name tr of
        (Inl e, tr') \<Rightarrow> (if e = errKmsNotFound then (Inr False, tr') else (Inl e, tr'))
      | (Inr _, tr') \<Rightarrow> (Inr True, tr'))"

text \<open>\<open>listKeys\<close> skips an alias that has no target key id.\<close>

definition listKeys_step :: "AliasListEntry \<Rightarrow> trace \<Rightarrow> status \<times> trace" where
  "listKeys_step k tr =
     (case TargetKeyId k of
        None \<Rightarrow> (Ok, tr)
      | Some kid \<Rightarrow> (Ok, tr @ [Log [(''id'', Str kid), (''alias'', Str (AliasName k))]]))"

definition listKeys :: "env \<Rightarrow> trace \<Rightarrow> status \<times> trace" where
  "listKeys E tr =
     (case kmsKeys E tr of
        (Inl e, tr') \<Rightarrow> (Failed e, tr')
      | (Inr keys, tr') \<Rightarrow> forEach listKeys_step keys tr')"

definition createKey :: "env \<Rightarrow> string \<Rightarrow> string \<Rightarrow> trace \<Rightarrow> status \<times> trace" where
  "createKey E name description tr =
     (let aliasName = ''alias/'' @ name in
      case hasKmsAlias E name tr of
        (Inl e, tr1) \<Rightarrow> (Failed e, tr1)
      | (Inr exists, tr1) \<Rightarrow>
          if exists then (Ok, tr1 @ [Log [(''alias'', Str name)]])
          else
            (case createdKey E tr1 description of
               Inl e \<Rightarrow> (Failed e, tr1 @ [CreateKey description])
             | Inr meta \<Rightarrow>
                 (case call E (CreateAlias aliasName (Arn meta)) (tr1 @ [CreateKey description]) of
                    (Some e, tr3) \<Rightarrow> (Failed e, tr3)
                  | (None, tr3) \<Rightarrow>
                      (Ok, tr3 @ [Log [(''alias'', Str name), (''arn'', Str (Arn meta)),
                                       (''account'', Str (AWSAccountId meta))]]))))"

definition deleteKey :: "env \<Rightarrow> string \<Rightarrow> bool \<Rightarrow> trace \<Rightarrow> status \<times> trace" where
  "deleteKey E name deletion tr =
     (case getKmsAlias E name tr of
        (Inl e, tr1) \<Rightarrow> (Failed e, tr1)
      | (Inr alias, tr1) \<Rightarrow>
          (case call E (DeleteAlias (AliasName alias)) tr1 of
             (Some e, tr2) \<Rightarrow> (Failed e, tr2)
           | (None, tr2) \<Rightarrow>
               if deletion then
                 (case TargetKeyId alias of
                    None \<Rightarrow> (NilDereference, tr2)
                  | Some kid \<Rightarrow>
                      (case call E (ScheduleKeyDeletion kid 7) tr2 of
                         (Some e, tr3) \<Rightarrow> (Failed e, tr3)
                       | (None, tr3) \<Rightarrow>
                           (Ok, tr3 @ [Log [(''alias'', Str (AliasName alias)), (''keyId'', Str kid),
                                            (''deletion'', Flag deletion)]])))
               else
                 (case TargetKeyId alias of
                    None \<Rightarrow> (NilDereference, tr2)
                  | Some kid \<Rightarrow>
                      (Ok, tr2 @ [Log [(''alias'', Str (AliasName alias)), (''keyId'', Str kid),
                                       (''deletion'', Flag deletion)]]))))"

section \<open>Bucket commands\<close>

definition listS3Buckets :: "env \<Rightarrow> trace \<Rightarrow> (error + Bucket list) \<times> trace" where
  "listS3Buckets E tr =
     (case bucketsOf E tr of
        Inl e \<Rightarrow> (Inl e, tr @ [ListBuckets])
      | Inr list \<Rightarrow> (Inr list, tr @ [ListBuckets]))"

fun bucketIn :: "string \<Rightarrow> Bucket list \<Rightarrow> bool" where
  "bucketIn bucket [] = False"
| "bucketIn bucket (x # xs) = (if bucket = Name x then True else bucketIn bucket xs)"

definition hasBucket :: "env \<Rightarrow> string \<Rightarrow> trace \<Rightarrow> (error + bool) \<times> trace" where
  "hasBucket E bucket tr =
     (case listS3Buckets E tr of
        (Inl e, tr') \<Rightarrow> (Inl e, tr')
      | (Inr list, tr') \<Rightarrow> (Inr (bucketIn bucket list), tr'))"

text \<open>The loop of \<open>listBucketKeys\<close>: a key that ends in the separator is passed over,
  every other entry is appended to the result.\<close>

fun keepFiles :: "Object list \<Rightarrow> Object list" where
  "keepFiles [] = []"
| "keepFiles (x # xs) = (if HasSuffix (Key x) ''/'' then keepFiles xs else x # keepFiles xs)"

definition listBucketKeys :: "env \<Rightarrow> string \<Rightarrow> string \<Rightarrow> trace \<Rightarrow> (error + Object list) \<times> trace" where
  "listBucketKeys E bucket prefix tr =
     (case objectsOf E tr bucket prefix of
        Inl e \<Rightarrow> (Inl e, tr @ [ListObjects bucket prefix])
      | Inr contents \<Rightarrow> (Inr (keepFiles contents), tr @ [ListObjects bucket prefix]))"

definition sizeOfBucket :: "env \<Rightarrow> string \<Rightarrow> trace \<Rightarrow> (error + nat) \<times> trace" where
  "sizeOfBucket E name tr =
     (case listBucketKeys E name [] tr of
        (Inl e, tr') \<Rightarrow> (Inl e, tr')
      | (Inr files, tr') \<Rightarrow> (Inr (length files), tr'))"

definition createBucket :: "env \<Rightarrow> string \<Rightarrow> trace \<Rightarrow> status \<times> trace" where
  "createBucket E name tr =
     (case hasBucket E name tr of
        (Inl e, tr1) \<Rightarrow> (Failed e, tr1)
      | (Inr found, tr1) \<Rightarrow>
          if found then (Failed (Errorf ''the bucket already exists''), tr1)
          else
            (case call E (CreateBucket name) tr1 of
               (Some e, tr2) \<Rightarrow> (Failed e, tr2)
             | (None, tr2) \<Rightarrow>
                 (Ok, tr2 @ [Log [(''operation'', Str ''created''), (''bucket'', Str name),
                                  (''created'', Str (clock E tr2))]])))"

definition deleteBucket_object :: "env \<Rightarrow> string \<Rightarrow> Object \<Rightarrow> trace \<Rightarrow> status \<times> trace" where
  "deleteBucket_object E name x tr =
     (case call E (DeleteObject name (Key x)) tr of
        (Some e, tr') \<Rightarrow>
          (Failed (Errorf (''failed to remove the file: '' @ Key x @
                           '' from bucket, error: '' @ Error e)), tr')
      | (None, tr') \<Rightarrow> (Ok, tr'))"

definition deleteBucket_bucket :: "env \<Rightarrow> string \<Rightarrow> trace \<Rightarrow> status \<times> trace" where
  "deleteBucket_bucket E name tr =
     (case call E (DeleteBucket name) tr of
        (Some e, tr') \<Rightarrow> (Failed e, tr')
      | (None, tr') \<Rightarrow>
          (Ok, tr' @ [Log [(''operation'', Str ''delete''), (''bucket'', Str name),
                           (''created'', Str (clock E tr'))]]))"

definition deleteBucket :: "env \<Rightarrow> string \<Rightarrow> bool \<Rightarrow> trace \<Rightarrow> status \<times> trace" where
  "deleteBucket E name force tr =
     (case hasBucket E name tr of
        (Inl e, tr1) \<Rightarrow> (Failed e, tr1)
      | (Inr found, tr1) \<Rightarrow>
          if \<not> found then (Failed (Errorf ''the bucket does not exist''), tr1)
          else
            (case sizeOfBucket E name tr1 of
               (Inl e, tr2) \<Rightarrow> (Failed e, tr2)
             | (Inr count, tr2) \<Rightarrow>
                 if count > 0 \<and> \<not> force then
                   (Failed (Errorf ''the bucket is not empty, either force (--force) deletion or empty the bucket''), tr2)
                 else if count > 0 then
                   (case listBucketKeys E name [] tr2 of
                      (Inl e, tr3) \<Rightarrow> (Failed e, tr3)
                    | (Inr files, tr3) \<Rightarrow>
                        (case forEach (deleteBucket_object E name) files tr3 of
                           (Ok, tr4) \<Rightarrow> deleteBucket_bucket E name tr4
                         | (r, tr4) \<Rightarrow> (r, tr4)))
                 else deleteBucket_bucket E name tr2))"

section \<open>File commands\<close>

text \<open>\<open>getFileBlob\<close> (\<open>getFile\<close> in the later copy of the download command): one
  \<open>GetObject\<close> call and the read of its body; either may fail.\<close>

definition getFileBlob :: "env \<Rightarrow> string \<Rightarrow> string \<Rightarrow> trace \<Rightarrow> (error + string) \<times> trace" where
  "getFileBlob E bucket key tr =
     (case contentOf E tr bucket key of
        Inl e \<Rightarrow> (Inl e, tr @ [GetObject bucket key])
      | Inr content \<Rightarrow> (Inr content, tr @ [GetObject bucket key]))"

definition putFile :: "env \<Rightarrow> string \<Rightarrow> string \<Rightarrow> string \<Rightarrow> string \<Rightarrow> trace \<Rightarrow> error option \<times> trace" where
  "putFile E bucket key path kmsID tr =
     (case call E (OpenRead path) tr of
        (Some e, tr1) \<Rightarrow> (Some e, tr1)
      | (None, tr1) \<Rightarrow> call E (Upload bucket key path kmsID) tr1)"

definition listFiles_key :: "bool \<Rightarrow> bool \<Rightarrow> string \<Rightarrow> Object \<Rightarrow> trace \<Rightarrow> status \<times> trace" where
  "listFiles_key detailed recursive p k tr =
     (if Contains (TrimPrefix (Key k) p) ''/'' \<and> \<not> recursive then (Ok, tr)
      else if detailed then
        (Ok, tr @ [Log [(''key'', Str (Key k)), (''size'', Num (Size k)),
                        (''class'', Str (StorageClass k)), (''etag'', Str (ETag k)),
                        (''owner'', Str (Owner k)), (''last-modified'', Str (LastModified k))]])
      else (Ok, tr @ [Log [(''key'', Str (Key k))]]))"

definition listFiles_path :: "env \<Rightarrow> string \<Rightarrow> bool \<Rightarrow> bool \<Rightarrow> string \<Rightarrow> trace \<Rightarrow> status \<times> trace" where
  "listFiles_path E bucket detailed recursive p tr =
     (case listBucketKeys E bucket p tr of
        (Inl e, tr1) \<Rightarrow> (Failed e, tr1)
      | (Inr files, tr1) \<Rightarrow> forEach (listFiles_key detailed recursive p) files tr1)"

definition listFiles :: "env \<Rightarrow> string \<Rightarrow> bool \<Rightarrow> bool \<Rightarrow> string list \<Rightarrow> trace \<Rightarrow> status \<times> trace" where
  "listFiles E bucket detailed recursive args tr =
     forEach (listFiles_path E bucket detailed recursive) (getPaths args) tr"

text \<open>
  \<open>getFiles\<close> occurs twice in the sources, with the same body; the copies differ in the
  name of the fetch helper (\<open>getFileBlob\<close>, \<open>getFile\<close>) and of the directory function
  (\<open>path.Dir\<close>, \<open>filepath.Dir\<close>). The body of the loop over the keys:
\<close>

definition getFiles_key ::
  "env \<Rightarrow> (string \<Rightarrow> bool) \<Rightarrow> string \<Rightarrow> string \<Rightarrow> bool \<Rightarrow> bool \<Rightarrow> Object \<Rightarrow> trace \<Rightarrow> status \<times> trace" where
  "getFiles_key E matcher bucket outdir flatten recursive k tr =
     (let filename = Key k in
      if Contains filename ''/'' \<and> \<not> recursive then (Ok, tr)
      else if \<not> matcher (Key k) then (Ok, tr)
      else
        (case getFileBlob E bucket (Key k) tr of
           (Inl e, tr1) \<Rightarrow> (Failed e, tr1)
         | (Inr content, tr1) \<Rightarrow>
             (let filename = (if Contains filename ''/'' \<and> flatten
                              then outdir @ ''/'' @ Base filename else filename);
                  fullPath = outdir @ ''/'' @ filename
              in case call E (MkdirAll (outdir @ ''/'' @ Dir filename)) tr1 of
                   (Some e, tr2) \<Rightarrow> (Failed e, tr2)
                 | (None, tr2) \<Rightarrow>
                     (case call E (OpenFileTrunc fullPath) tr2 of
                        (Some e, tr3) \<Rightarrow> (Failed e, tr3)
                      | (None, tr3) \<Rightarrow>
                          (case call E (Write fullPath content) tr3 of
                             (Some e, tr4) \<Rightarrow> (Failed e, tr4)
                           | (None, tr4) \<Rightarrow>
                               (Ok, tr4 @ [Log [(''action'', Str ''get''),
                                                (''source'', Str (Key k)),
                                                (''destination'', Str fullPath),
                                                (''content'', Str content)]]))))))"

definition getFiles_path ::
  "env \<Rightarrow> (string \<Rightarrow> bool) \<Rightarrow> string \<Rightarrow> string \<Rightarrow> bool \<Rightarrow> bool \<Rightarrow> string \<Rightarrow> trace \<Rightarrow> status \<times> trace" where
  "getFiles_path E matcher bucket outdir flatten recursive p tr =
     (let p = (if HasPrefix p ''/'' then TrimPrefix p ''/'' else p) in
      case listBucketKeys E bucket p tr of
        (Inl e, tr1) \<Rightarrow> (Failed e, tr1)
      | (Inr keys, tr1) \<Rightarrow>
          forEach (getFiles_key E matcher bucket outdir flatten recursive) keys tr1)"

definition getFiles ::
  "env \<Rightarrow> string \<Rightarrow> string \<Rightarrow> bool \<Rightarrow> bool \<Rightarrow> string \<Rightarrow> string list \<Rightarrow> trace \<Rightarrow> status \<times> trace" where
  "getFiles E bucket outdir flatten recursive pattern args tr =
     (case compiled E pattern of
        Inl e \<Rightarrow>
          (Failed (Errorf (''the filter: '' @ pattern @ '' is invalid, message: '' @ Error e)),
           tr @ [RegexpCompile pattern])
      | Inr matcher \<Rightarrow>
          (case call E (MkdirAll outdir) (tr @ [RegexpCompile pattern]) of
             (Some e, tr1) \<Rightarrow> (Failed e, tr1)
           | (None, tr1) \<Rightarrow>
               forEach (getFiles_path E matcher bucket outdir flatten recursive)
                 (getPaths args) tr1))"

text \<open>
  Modelled from the spec: \<open>expandFiles\<close> is a helper of the repository whose source is
  not among the files; the specification says it expands a local path recursively into
  a flat list of regular files. Its answer is taken from the environment
  (\<open>expanded\<close>), and the call is recorded as \<open>ExpandFiles\<close>.
\<close>

definition putFiles_file :: "env \<Rightarrow> string \<Rightarrow> string \<Rightarrow> bool \<Rightarrow> string \<Rightarrow> trace \<Rightarrow> status \<times> trace" where
  "putFiles_file E bucket kms flatten filename tr =
     (let keyName = (if flatten then Base filename else filename) in
      case putFile E bucket keyName filename kms tr of
        (Some e, tr1) \<Rightarrow>
          (Failed (Errorf (''failed to put the file: '' @ filename @ '', error: '' @ Error e)), tr1)
      | (None, tr1) \<Rightarrow>
          (Ok, tr1 @ [Log [(''action'', Str ''put''), (''path'', Str filename),
                           (''bucket'', Str bucket), (''key'', Str keyName)]]))"

definition putFiles_path :: "env \<Rightarrow> string \<Rightarrow> string \<Rightarrow> bool \<Rightarrow> string \<Rightarrow> trace \<Rightarrow> status \<times> trace" where
  "putFiles_path E bucket kms flatten p tr =
     (case expanded E tr p of
        Inl e \<Rightarrow>
          (Failed (Errorf (''failed to process path: '' @ p @ '', error: '' @ Error e)),
           tr @ [ExpandFiles p])
      | Inr files \<Rightarrow> forEach (putFiles_file E bucket kms flatten) files (tr @ [ExpandFiles p]))"

definition putFiles :: "env \<Rightarrow> string \<Rightarrow> string \<Rightarrow> bool \<Rightarrow> string list \<Rightarrow> trace \<Rightarrow> status \<times> trace" where
  "putFiles E bucket kms flatten args tr =
     (case hasBucket E bucket tr of
        (Inl e, tr1) \<Rightarrow> (Failed e, tr1)
      | (Inr found, tr1) \<Rightarrow>
          if \<not> found then (Failed (Errorf (''the bucket: '' @ bucket @ '' does not exist'')), tr1)
          else if length args \<le> 0 then
            (Failed (Errorf ''you have not specified any files to upload''), tr1)
          else forEach (putFiles_path E bucket kms flatten) (getPaths args) tr1)"





section \<open>Reading a trace\<close>

text \<open>The keys fetched from the bucket, in order.\<close>

fun fetched :: "trace \<Rightarrow> string list" where
  "fetched [] = []"
| "fetched (GetObject bucket key # evs) = key # fetched evs"
| "fetched (ev # evs) = fetched evs"

text \<open>How often a pattern was compiled.\<close>

fun compilations :: "trace \<Rightarrow> nat" where
  "compilations [] = 0"
| "compilations (RegexpCompile pattern # evs) = Suc (compilations evs)"
| "compilations (ev # evs) = compilations evs"


section \<open>Concrete environments\<close>

text \<open>An environment in which every call succeeds: no aliases, no buckets, no
  objects, and a filter that matches every key. The examples below change single
  fields of it.\<close>

definition calm :: env where
  "calm =
     \<lparr> fails = (\<lambda>tr ev. None),
       aliasesOf = (\<lambda>tr. Inr []),
       bucketsOf = (\<lambda>tr. Inr []),
       objectsOf = (\<lambda>tr bucket prefix. Inr []),
       contentOf = (\<lambda>tr bucket key. Inr ''secret''),
       createdKey = (\<lambda>tr description. Inr \<lparr> Arn = ''arn:key'', AWSAccountId = ''1234'' \<rparr>),
       tempName = (\<lambda>tr dir pattern. Inr (dir @ ''/'' @ pattern)),
       expanded = (\<lambda>tr p. Inr [p]),
       compiled = (\<lambda>pattern. Inr (\<lambda>key. True)),
       clock = (\<lambda>tr. ''now'') \<rparr>"

definition obj :: "string \<Rightarrow> Object" where
  "obj k = \<lparr> Key = k, Size = 1, StorageClass = ''STANDARD'', ETag = ''e'', Owner = ''me'',
             LastModified = ''today'' \<rparr>"

definition withObjects :: "string list \<Rightarrow> env" where
  "withObjects keys = calm \<lparr> objectsOf := (\<lambda>tr bucket prefix. Inr (map obj keys)) \<rparr>"

definition withBucket :: "string \<Rightarrow> string list \<Rightarrow> env" where
  "withBucket b keys =
     calm \<lparr> bucketsOf := (\<lambda>tr. Inr [\<lparr> Name = b, CreationDate = ''then'' \<rparr>]),
            objectsOf := (\<lambda>tr bucket prefix. Inr (map obj keys)) \<rparr>"

definition withAliases :: "AliasListEntry list \<Rightarrow> env" where
  "withAliases as = calm \<lparr> aliasesOf := (\<lambda>tr. Inr as) \<rparr>"

text \<open>A provider that answers a listing with the stored keys that begin with the
  prefix asked for.\<close>

definition withStore :: "string list \<Rightarrow> env" where
  "withStore keys =
     calm \<lparr> objectsOf := (\<lambda>tr bucket prefix.
                           Inr (filter (\<lambda>x. HasPrefix (Key x) prefix) (map obj keys))) \<rparr>"

text \<open>A provider or system in which the calls selected by \<open>P\<close> fail with \<open>err\<close>.\<close>

definition failingAt :: "(event \<Rightarrow> bool) \<Rightarrow> error \<Rightarrow> env \<Rightarrow> env" where
  "failingAt P err E = E \<lparr> fails := (\<lambda>tr ev. if P ev then Some err else None) \<rparr>"

text \<open>A regexp package that rejects every pattern, and one whose compiled pattern
  matches the keys ending in \<open>.txt\<close> (the pattern \<open>\.txt$\<close>).\<close>

definition rejecting :: "env \<Rightarrow> env" where
  "rejecting E = E \<lparr> compiled := (\<lambda>pattern. Inl (External ''error parsing regexp'')) \<rparr>"

definition matchingTxt :: "env \<Rightarrow> env" where
  "matchingTxt E = E \<lparr> compiled := (\<lambda>pattern. Inr (\<lambda>key. HasSuffix key ''.txt'')) \<rparr>"

section \<open>Facts about the library functions and the loops\<close>

lemmas env_defs = calm_def withObjects_def withBucket_def withAliases_def obj_def
  withStore_def failingAt_def rejecting_def matchingTxt_def

lemmas path_defs = HasPrefix_def HasSuffix_def TrimPrefix_def TrimLeft_def Base_def Dir_def
  Clean_def

lemma HasSuffix_slash: "HasSuffix s ''/'' = (s \<noteq> [] \<and> last s = CHR ''/'')"
proof (cases s rule: rev_cases)
  case Nil
  then show ?thesis by (simp add: HasSuffix_def)
next
  case (snoc ys y)
  then show ?thesis by (simp add: HasSuffix_def)
qed

lemma Contains_slash: "Contains s ''/'' = (CHR ''/'' \<in> set s)"
  by (induction s) (auto simp: HasPrefix_def)

lemma TrimLeft_alias:
  assumes "name = [] \<or> hd name \<notin> set ''alias/''"
  shows "TrimLeft (''alias/'' @ name) ''alias/'' = name"
proof -
  have "dropWhile (\<lambda>c. c \<in> set ''alias/'') (''alias/'' @ name) =
        dropWhile (\<lambda>c. c \<in> set ''alias/'') name"
    by (rule dropWhile_append2) simp
  also have "\<dots> = name"
    using assms by (cases name) auto
  finally show ?thesis by (simp only: TrimLeft_def)
qed

lemma keepFiles_filter: "keepFiles xs = filter (\<lambda>x. \<not> HasSuffix (Key x) ''/'') xs"
  by (induction xs) auto

lemma bucketIn_iff: "bucketIn bucket list = (bucket \<in> Name ` set list)"
  by (induction list) auto

lemma fetched_append: "fetched (xs @ ys) = fetched xs @ fetched ys"
  by (induction xs rule: fetched.induct) auto

lemma compilations_append: "compilations (xs @ ys) = compilations xs + compilations ys"
  by (induction xs rule: compilations.induct) auto

text \<open>A quantity of the trace that no run of the body changes is not changed by the loop.\<close>

lemma forEach_preserves:
  assumes "\<And>x t. f (snd (body x t)) = f t"
  shows "f (snd (forEach body xs tr)) = f tr"
proof (induction xs arbitrary: tr)
  case Nil
  show ?case by simp
next
  case (Cons x xs)
  obtain r t' where step: "body x tr = (r, t')"
    by (cases "body x tr")
  have "f t' = f tr"
    using assms [of x tr] step by simp
  with Cons step show ?case
    by (cases r) simp_all
qed


text \<open>What the runs of the body that return \<open>Ok\<close> add to a reading of the trace, the loop
  adds in order when it returns \<open>Ok\<close>.\<close>

lemma forEach_collect:
  assumes "\<And>x t t'. body x t = (Ok, t') \<Longrightarrow> f t' = f t @ g x"
  shows "forEach body xs tr = (Ok, t') \<Longrightarrow> f t' = f tr @ concat (map g xs)"
proof (induction xs arbitrary: tr)
  case Nil
  then show ?case by simp
next
  case (Cons x xs)
  obtain r t1 where step: "body x tr = (r, t1)"
    by (cases "body x tr")
  show ?case
  proof (cases r)
    case Ok
    with step have "f t1 = f tr @ g x"
      using assms by simp
    moreover have "forEach body xs t1 = (Ok, t')"
      using Cons.prems step Ok by simp
    ultimately show ?thesis
      using Cons.IH [of t1] by simp
  qed (use Cons.prems step in auto)
qed

lemma forEach_succeeds:
  assumes "\<And>x t. fst (body x t) = Ok"
  shows "fst (forEach body xs tr) = Ok"
proof (induction xs arbitrary: tr)
  case Nil
  show ?case by simp
next
  case (Cons x xs)
  obtain t1 where "body x tr = (Ok, t1)"
    using assms [of x tr] by (cases "body x tr") auto
  with Cons show ?case by simp
qed

lemma concat_singletons:
  "concat (map (\<lambda>x. if P x then [h x] else []) xs) = map h (filter P xs)"
  by (induction xs) auto

section \<open>Facts about the helpers of the commands\<close>

lemma hasBucket_listed:
  "bucketsOf E tr = Inr list \<Longrightarrow>
   hasBucket E bucket tr = (Inr (bucketIn bucket list), tr @ [ListBuckets])"
  by (simp add: hasBucket_def listS3Buckets_def)

lemma listBucketKeys_listed:
  "objectsOf E tr bucket prefix = Inr contents \<Longrightarrow>
   listBucketKeys E bucket prefix tr =
     (Inr (keepFiles contents), tr @ [ListObjects bucket prefix])"
  by (simp add: listBucketKeys_def)

lemma firstAlias_finds:
  "x \<in> set aliases \<Longrightarrow> TrimLeft (AliasName x) ''alias/'' = name \<Longrightarrow>
   firstAlias name aliases \<noteq> None"
  by (induction aliases) auto

lemma firstAlias_Some:
  "firstAlias name aliases = Some a \<Longrightarrow>
   a \<in> set aliases \<and> TrimLeft (AliasName a) ''alias/'' = name"
  by (induction aliases) (auto split: if_splits)

lemma getKmsAlias_listed:
  "aliasesOf E tr = Inr aliases \<Longrightarrow>
   getKmsAlias E name tr =
     (case firstAlias name aliases of None \<Rightarrow> Inl errKmsNotFound | Some a \<Rightarrow> Inr a,
      tr @ [ListAliases])"
  by (simp add: getKmsAlias_def kmsKeys_def split: option.splits)

lemma deleteBucket_objects_all:
  "\<forall>t ev. fails E t ev = None \<Longrightarrow>
   forEach (deleteBucket_object E name) files tr =
     (Ok, tr @ map (\<lambda>x. DeleteObject name (Key x)) files)"
  by (induction files arbitrary: tr) (simp_all add: deleteBucket_object_def call_def)

text \<open>The non-recursive listing keeps a key exactly when what follows the prefix has no
  separator.\<close>

lemma listFiles_key_kept:
  "listFiles_key False recursive p k tr =
     (Ok, if Contains (TrimPrefix (Key k) p) ''/'' \<and> \<not> recursive then tr
          else tr @ [Log [(''key'', Str (Key k))]])"
  by (simp add: listFiles_key_def)

text \<open>The download tests the whole key: without the recursive flag a key with a
  separator anywhere is passed over, whatever the prefix.\<close>

lemma getFiles_key_skips_nested:
  "Contains (Key k) ''/'' \<Longrightarrow>
   getFiles_key E matcher bucket outdir flatten False k tr = (Ok, tr)"
  by (simp add: getFiles_key_def)

lemma getFiles_key_compilations:
  "compilations (snd (getFiles_key E matcher bucket outdir flatten recursive k tr)) =
   compilations tr"
  by (simp add: getFiles_key_def getFileBlob_def call_def Let_def compilations_append
           split: sum.splits option.splits)

lemma getFiles_path_compilations:
  "compilations (snd (getFiles_path E matcher bucket outdir flatten recursive p tr)) =
   compilations tr"
  by (simp add: getFiles_path_def listBucketKeys_def Let_def compilations_append
                forEach_preserves [where f = compilations] getFiles_key_compilations
           split: sum.splits)

lemma getFiles_compiles_once:
  "compilations (snd (getFiles E bucket outdir flatten recursive pattern args tr)) =
   Suc (compilations tr)"
  by (simp add: getFiles_def call_def compilations_append
                forEach_preserves [where f = compilations] getFiles_path_compilations
           split: sum.splits option.splits)

text \<open>A run of the loop body that returns \<open>Ok\<close> has fetched the key exactly when the
  key passed the recursion test and the pattern.\<close>

lemma getFiles_key_fetched:
  "getFiles_key E matcher bucket outdir flatten recursive k t = (Ok, t') \<Longrightarrow>
   fetched t' = fetched t @
     (if \<not> (Contains (Key k) ''/'' \<and> \<not> recursive) \<and> matcher (Key k) then [Key k] else [])"
  by (auto simp: getFiles_key_def getFileBlob_def call_def Let_def fetched_append
           split: if_splits sum.splits option.splits)

lemma getFiles_path_fetched:
  assumes "\<forall>t q. objectsOf E t bucket q = Inr (contents q)"
      and "getFiles_path E matcher bucket outdir flatten recursive p t = (Ok, t')"
  shows "fetched t' = fetched t @
           map Key (filter (\<lambda>x. \<not> (Contains (Key x) ''/'' \<and> \<not> recursive) \<and> matcher (Key x))
                      (filter (\<lambda>x. \<not> HasSuffix (Key x) ''/'')
                         (contents (if HasPrefix p ''/'' then TrimPrefix p ''/'' else p))))"
proof -
  let ?q = "if HasPrefix p ''/'' then TrimPrefix p ''/'' else p"
  have "forEach (getFiles_key E matcher bucket outdir flatten recursive)
          (keepFiles (contents ?q)) (t @ [ListObjects bucket ?q]) = (Ok, t')"
    using assms by (simp add: getFiles_path_def listBucketKeys_def Let_def)
  from forEach_collect
         [where f = fetched and body = "getFiles_key E matcher bucket outdir flatten recursive",
          OF getFiles_key_fetched this]
  show ?thesis
    by (simp add: fetched_append concat_singletons keepFiles_filter)
qed

lemma getFiles_key_succeeds:
  assumes "\<forall>t ev. fails E t ev = None"
      and "\<forall>t key. \<exists>c. contentOf E t bucket key = Inr c"
  shows "fst (getFiles_key E matcher bucket outdir flatten recursive k t) = Ok"
proof -
  obtain c where "contentOf E t bucket (Key k) = Inr c"
    using assms(2) by blast
  then show ?thesis
    using assms(1) by (simp add: getFiles_key_def getFileBlob_def call_def Let_def)
qed

lemma getFiles_path_succeeds:
  assumes "\<forall>t ev. fails E t ev = None"
      and "\<forall>t key. \<exists>c. contentOf E t bucket key = Inr c"
      and "\<forall>t q. objectsOf E t bucket q = Inr (contents q)"
  shows "fst (getFiles_path E matcher bucket outdir flatten recursive p t) = Ok"
  using assms(3)
  by (simp add: getFiles_path_def listBucketKeys_def Let_def
                forEach_succeeds [OF getFiles_key_succeeds [OF assms(1,2)]])



text \<open>\<open>deleteBucket\<close> in terms of the files that \<open>listBucketKeys\<close> reports: with such a
  file and without force it refuses after two read-only calls; with such a file, with
  force and with no failing call it lists again, deletes every reported file and then
  the bucket; with no such file it goes on to delete the bucket at once.\<close>

lemma deleteBucket_by_listed_files:
  assumes found: "bucketsOf E tr = Inr list" "b \<in> set list" "Name b = name"
      and listing: "objectsOf E (tr @ [ListBuckets]) name [] = Inr contents"
  shows
    "(keepFiles contents \<noteq> [] \<and> \<not> force \<longrightarrow>
        deleteBucket E name force tr =
          (Failed (Errorf ''the bucket is not empty, either force (--force) deletion or empty the bucket''),
           tr @ [ListBuckets, ListObjects name []]))
     \<and> (keepFiles contents \<noteq> [] \<and> force \<and> (\<forall>t ev. fails E t ev = None)
          \<and> objectsOf E (tr @ [ListBuckets, ListObjects name []]) name [] = Inr again \<longrightarrow>
        deleteBucket E name force tr =
          (Ok, tr @ [ListBuckets, ListObjects name [], ListObjects name []]
                  @ map (\<lambda>x. DeleteObject name (Key x)) (keepFiles again)
                  @ [DeleteBucket name,
                     Log [(''operation'', Str ''delete''), (''bucket'', Str name),
                          (''created'',
                           Str (clock E (tr @ [ListBuckets, ListObjects name [], ListObjects name []]
                                  @ map (\<lambda>x. DeleteObject name (Key x)) (keepFiles again)
                                  @ [DeleteBucket name])))]]))
     \<and> (keepFiles contents = [] \<and>
          fails E (tr @ [ListBuckets, ListObjects name []]) (DeleteBucket name) = None \<longrightarrow>
        deleteBucket E name force tr =
          (Ok, tr @ [ListBuckets, ListObjects name [], DeleteBucket name,
                     Log [(''operation'', Str ''delete''), (''bucket'', Str name),
                          (''created'',
                           Str (clock E (tr @ [ListBuckets, ListObjects name [],
                                               DeleteBucket name])))]]))"
proof -
  have hb: "hasBucket E name tr = (Inr True, tr @ [ListBuckets])"
    using found by (auto simp: hasBucket_listed bucketIn_iff)
  have sz: "sizeOfBucket E name (tr @ [ListBuckets]) =
              (Inr (length (keepFiles contents)), tr @ [ListBuckets, ListObjects name []])"
    using listing by (simp add: sizeOfBucket_def listBucketKeys_listed)
  have refuse: "keepFiles contents \<noteq> [] \<and> \<not> force \<longrightarrow>
        deleteBucket E name force tr =
          (Failed (Errorf ''the bucket is not empty, either force (--force) deletion or empty the bucket''),
           tr @ [ListBuckets, ListObjects name []])"
    by (simp add: deleteBucket_def hb sz)
  have forced: "keepFiles contents \<noteq> [] \<and> force \<and> (\<forall>t ev. fails E t ev = None)
          \<and> objectsOf E (tr @ [ListBuckets, ListObjects name []]) name [] = Inr again \<longrightarrow>
        deleteBucket E name force tr =
          (Ok, tr @ [ListBuckets, ListObjects name [], ListObjects name []]
                  @ map (\<lambda>x. DeleteObject name (Key x)) (keepFiles again)
                  @ [DeleteBucket name,
                     Log [(''operation'', Str ''delete''), (''bucket'', Str name),
                          (''created'',
                           Str (clock E (tr @ [ListBuckets, ListObjects name [], ListObjects name []]
                                  @ map (\<lambda>x. DeleteObject name (Key x)) (keepFiles again)
                                  @ [DeleteBucket name])))]])"
    by (simp add: deleteBucket_def hb sz listBucketKeys_listed deleteBucket_objects_all
                  deleteBucket_bucket_def call_def)
  have empty: "keepFiles contents = [] \<and>
          fails E (tr @ [ListBuckets, ListObjects name []]) (DeleteBucket name) = None \<longrightarrow>
        deleteBucket E name force tr =
          (Ok, tr @ [ListBuckets, ListObjects name [], DeleteBucket name,
                     Log [(''operation'', Str ''delete''), (''bucket'', Str name),
                          (''created'',
                           Str (clock E (tr @ [ListBuckets, ListObjects name [],
                                               DeleteBucket name])))]])"
    by (simp add: deleteBucket_def hb sz deleteBucket_bucket_def call_def)
  from refuse forced empty show ?thesis by blast
qed

section \<open>The claims\<close>

subsection \<open>C1: recursion filtering\<close>

text \<open>
  C1. The claim: recursion filtering looks at the key with the listing prefix removed, so
  that for prefix \<open>a/\<close>, without the recursive flag, of the keys \<open>a/1.txt\<close> and \<open>a/b/2.txt\<close>
  exactly \<open>a/1.txt\<close> survives, in the listing and in the download. The listing does this.
  The download tests the whole key (see \<open>getFiles_key_skips_nested\<close>), although its own
  comment speaks of the part after the prefix: on this input it lists the bucket and
  fetches nothing, while the listing reports \<open>a/1.txt\<close>.
\<close>

theorem getFiles_recursion_filter_tests_whole_key:
  "getFiles (withObjects [''a/1.txt'', ''a/b/2.txt'']) ''b'' ''out'' False False ''.*'' [''a/''] [] =
     (Ok, [RegexpCompile ''.*'', MkdirAll ''out'', ListObjects ''b'' ''a/''])
   \<and> listFiles (withObjects [''a/1.txt'', ''a/b/2.txt'']) ''b'' False False [''a/''] [] =
     (Ok, [ListObjects ''b'' ''a/'', Log [(''key'', Str ''a/1.txt'')]])"
  by (simp add: getFiles_def getFiles_path_def getFiles_key_def listFiles_def listFiles_path_def
                listFiles_key_def getPaths_def call_def listBucketKeys_def env_defs path_defs
                Let_def)

subsection \<open>C2: the destination of a downloaded object\<close>

text \<open>
  C2. The claim: with \<open>flatten\<close> the key \<open>dir/sub/file.txt\<close> is written to
  \<open>outdir/file.txt\<close>, without it to \<open>outdir/dir/sub/file.txt\<close>, the directories being made
  before the write and the file truncated. Without \<open>flatten\<close> the code does so. With
  \<open>flatten\<close> the output directory is put in front of the base name and then once more in
  front of the result: for the output directory \<open>out\<close> the directory made is \<open>out/out\<close>
  and the file written is \<open>out/out/file.txt\<close>.
\<close>

theorem getFiles_flatten_repeats_output_directory:
  "getFiles (withObjects [''dir/sub/file.txt'']) ''b'' ''out'' True True ''.*'' [] [] =
     (Ok, [RegexpCompile ''.*'', MkdirAll ''out'', ListObjects ''b'' [],
           GetObject ''b'' ''dir/sub/file.txt'', MkdirAll ''out/out'',
           OpenFileTrunc ''out/out/file.txt'', Write ''out/out/file.txt'' ''secret'',
           Log [(''action'', Str ''get''), (''source'', Str ''dir/sub/file.txt''),
                (''destination'', Str ''out/out/file.txt''), (''content'', Str ''secret'')]])
   \<and> getFiles (withObjects [''dir/sub/file.txt'']) ''b'' ''out'' False True ''.*'' [] [] =
     (Ok, [RegexpCompile ''.*'', MkdirAll ''out'', ListObjects ''b'' [],
           GetObject ''b'' ''dir/sub/file.txt'', MkdirAll ''out/dir/sub'',
           OpenFileTrunc ''out/dir/sub/file.txt'', Write ''out/dir/sub/file.txt'' ''secret'',
           Log [(''action'', Str ''get''), (''source'', Str ''dir/sub/file.txt''),
                (''destination'', Str ''out/dir/sub/file.txt''), (''content'', Str ''secret'')]])"
  by (simp add: getFiles_def getFiles_path_def getFiles_key_def getFileBlob_def getPaths_def
                call_def listBucketKeys_def env_defs path_defs Let_def)

subsection \<open>C3: alias resolution\<close>

text \<open>
  C3. The claim: \<open>getKmsAlias\<close> strips the literal prefix \<open>alias/\<close> from each alias name
  and returns the first entry whose remaining name is the requested one, so that a list
  holding an alias named X always resolves X. The code calls \<open>strings.TrimLeft\<close>, which
  removes every leading character out of the set a, l, i, s, /: the alias
  \<open>alias/salsa\<close> is trimmed to the empty string and the name \<open>salsa\<close> is not found, and
  the alias \<open>alias/ssh\<close> is trimmed to \<open>h\<close> and is returned for the name \<open>h\<close>.
\<close>

theorem getKmsAlias_trims_a_character_set:
  "getKmsAlias (withAliases [\<lparr>AliasName = ''alias/salsa'', TargetKeyId = Some ''k1''\<rparr>]) ''salsa'' [] =
     (Inl errKmsNotFound, [ListAliases])
   \<and> getKmsAlias (withAliases [\<lparr>AliasName = ''alias/ssh'', TargetKeyId = Some ''k2''\<rparr>]) ''h'' [] =
     (Inr \<lparr>AliasName = ''alias/ssh'', TargetKeyId = Some ''k2''\<rparr>, [ListAliases])"
  by (simp add: getKmsAlias_def kmsKeys_def env_defs TrimLeft_def)

subsection \<open>C4: directory markers\<close>

text \<open>
  C4. For every answer of the provider to a listing, \<open>listBucketKeys\<close> returns the entries
  of the answer whose key does not end in the separator, in the order of the answer, and
  so no entry of its result has a key that ends in the separator.
\<close>

theorem listBucketKeys_drops_directory_markers:
  "objectsOf E tr bucket prefix = Inr contents \<Longrightarrow>
     listBucketKeys E bucket prefix tr =
       (Inr (filter (\<lambda>x. \<not> HasSuffix (Key x) ''/'') contents), tr @ [ListObjects bucket prefix])
     \<and> (\<forall>x \<in> set (filter (\<lambda>x. \<not> HasSuffix (Key x) ''/'') contents).
           \<not> (Key x \<noteq> [] \<and> last (Key x) = CHR ''/''))"
  by (simp add: listBucketKeys_def keepFiles_filter HasSuffix_slash)

theorem listBucketKeys_drops_directory_markers_witness:
  "listBucketKeys (withObjects [''dir/'', ''a.txt'', ''dir/b'', ''dir/sub/'']) ''b'' ''d'' [] =
     (Inr [obj ''a.txt'', obj ''dir/b''], [ListObjects ''b'' ''d''])"
  using listBucketKeys_drops_directory_markers
          [of "withObjects [''dir/'', ''a.txt'', ''dir/b'', ''dir/sub/'']" "[]" "''b''" "''d''"
              "map obj [''dir/'', ''a.txt'', ''dir/b'', ''dir/sub/'']"]
  by (simp add: env_defs HasSuffix_def)

subsection \<open>C5: deleting a bucket\<close>

text \<open>
  C5. The claim: on an existing bucket that contains at least one object, \<open>deleteBucket\<close>
  fails with the not-empty error without force, and with force deletes every object and
  then the bucket. The command counts and deletes what \<open>listBucketKeys\<close> returns, which
  leaves out the objects whose key ends in the separator, although \<open>sizeOfBucket\<close> is
  documented as the number of objects in the bucket and the deletion as the deletion
  of all the keys. For a bucket that holds only the object \<open>dir/\<close> the count is 0:
  without force the command does not answer with its not-empty error but asks the
  provider to delete the bucket and hands back the provider's refusal. With force, on a
  bucket holding \<open>x\<close>, \<open>dir/\<close> and \<open>y\<close>, the objects \<open>x\<close> and \<open>y\<close> are deleted, \<open>dir/\<close> is
  not, and the deletion of the bucket is refused by the provider.
\<close>

theorem deleteBucket_ignores_directory_markers:
  "objectsOf (failingAt (\<lambda>ev. ev = DeleteBucket ''b'') (External ''BucketNotEmpty'')
               (withBucket ''b'' [''dir/''])) [ListBuckets] ''b'' [] = Inr [obj ''dir/'']
   \<and> sizeOfBucket (failingAt (\<lambda>ev. ev = DeleteBucket ''b'') (External ''BucketNotEmpty'')
                    (withBucket ''b'' [''dir/''])) ''b'' [ListBuckets] =
       (Inr 0, [ListBuckets, ListObjects ''b'' []])
   \<and> deleteBucket (failingAt (\<lambda>ev. ev = DeleteBucket ''b'') (External ''BucketNotEmpty'')
                    (withBucket ''b'' [''dir/''])) ''b'' False [] =
       (Failed (External ''BucketNotEmpty''),
        [ListBuckets, ListObjects ''b'' [], DeleteBucket ''b''])
   \<and> deleteBucket (failingAt (\<lambda>ev. ev = DeleteBucket ''b'') (External ''BucketNotEmpty'')
                    (withBucket ''b'' [''x'', ''dir/'', ''y''])) ''b'' True [] =
       (Failed (External ''BucketNotEmpty''),
        [ListBuckets, ListObjects ''b'' [], ListObjects ''b'' [],
         DeleteObject ''b'' ''x'', DeleteObject ''b'' ''y'', DeleteBucket ''b''])"
  by (simp add: deleteBucket_def deleteBucket_bucket_def deleteBucket_object_def hasBucket_def
                listS3Buckets_def sizeOfBucket_def listBucketKeys_def call_def env_defs
                HasSuffix_def)

subsection \<open>C6: the preconditions of an upload\<close>

text \<open>
  C6. When the provider's list of buckets does not hold the target bucket, \<open>putFiles\<close>
  fails with the bucket-not-found error; when it does and no path argument is given,
  \<open>putFiles\<close> fails with the no-input error. In both cases the listing of the buckets
  is the only call made: no path is expanded, no file is opened, nothing is uploaded.
\<close>

theorem putFiles_preconditions:
  assumes "bucketsOf E tr = Inr list"
  shows "(bucket \<notin> Name ` set list \<longrightarrow>
            putFiles E bucket kms flatten args tr =
              (Failed (Errorf (''the bucket: '' @ bucket @ '' does not exist'')),
               tr @ [ListBuckets]))
       \<and> (bucket \<in> Name ` set list \<and> args = [] \<longrightarrow>
            putFiles E bucket kms flatten args tr =
              (Failed (Errorf ''you have not specified any files to upload''),
               tr @ [ListBuckets]))"
  using assms by (simp add: putFiles_def hasBucket_listed bucketIn_iff)

theorem putFiles_preconditions_witness:
  "putFiles (withBucket ''b'' []) ''c'' ''key-1'' False [''notes.txt''] [] =
     (Failed (Errorf ''the bucket: c does not exist''), [ListBuckets])
   \<and> putFiles (withBucket ''b'' []) ''b'' ''key-1'' False [] [] =
     (Failed (Errorf ''you have not specified any files to upload''), [ListBuckets])"
  using putFiles_preconditions
          [of "withBucket ''b'' []" "[]" "[\<lparr> Name = ''b'', CreationDate = ''then'' \<rparr>]"
              "''c''" "''key-1''" False "[''notes.txt'']"]
        putFiles_preconditions
          [of "withBucket ''b'' []" "[]" "[\<lparr> Name = ''b'', CreationDate = ''then'' \<rparr>]"
              "''b''" "''key-1''" False "[]"]
  by (simp add: env_defs)

subsection \<open>C7: the pattern filter of a download\<close>

text \<open>
  C7. In \<open>getFiles\<close> a pattern that does not compile ends the command with the
  invalid-filter error, the compilation being the only thing that happened: no directory
  is made, nothing is listed or fetched. Whatever the arguments and the answers of the
  provider, the pattern is compiled exactly once in a run. With a pattern that compiles
  and a provider whose listing of a prefix is \<open>contents\<close> of that prefix, every run that
  returns without an error, for any number of paths, has fetched, path by path and in
  the order of the listing, exactly the listed keys that pass the recursion test and
  that the compiled pattern matches; the pattern is applied to the whole key. Such a run
  exists whenever no call fails.
\<close>

theorem getFiles_pattern_filter:
  "(compiled E pattern = Inl e \<longrightarrow>
      getFiles E bucket outdir flatten recursive pattern args tr =
        (Failed (Errorf (''the filter: '' @ pattern @ '' is invalid, message: '' @ Error e)),
         tr @ [RegexpCompile pattern]))
   \<and> compilations (snd (getFiles E bucket outdir flatten recursive pattern args tr)) =
       Suc (compilations tr)
   \<and> (compiled E pattern = Inr matcher \<and> (\<forall>t q. objectsOf E t bucket q = Inr (contents q)) \<and>
      fst (getFiles E bucket outdir flatten recursive pattern args tr) = Ok \<longrightarrow>
      fetched (snd (getFiles E bucket outdir flatten recursive pattern args tr)) =
        fetched tr @
        concat (map (\<lambda>p.
            map Key (filter (\<lambda>x. \<not> (Contains (Key x) ''/'' \<and> \<not> recursive) \<and> matcher (Key x))
                       (filter (\<lambda>x. \<not> HasSuffix (Key x) ''/'')
                          (contents (if HasPrefix p ''/'' then TrimPrefix p ''/'' else p)))))
          (getPaths args)))
   \<and> (compiled E pattern = Inr matcher \<and> (\<forall>t q. objectsOf E t bucket q = Inr (contents q)) \<and>
      (\<forall>t ev. fails E t ev = None) \<and> (\<forall>t key. \<exists>c. contentOf E t bucket key = Inr c) \<longrightarrow>
      fst (getFiles E bucket outdir flatten recursive pattern args tr) = Ok)"
proof -
  let ?run = "getFiles E bucket outdir flatten recursive pattern args tr"
  let ?t = "tr @ [RegexpCompile pattern, MkdirAll outdir]"
  let ?loop = "forEach (getFiles_path E matcher bucket outdir flatten recursive)
                 (getPaths args) ?t"
  have bad: "compiled E pattern = Inl e \<longrightarrow>
      ?run = (Failed (Errorf (''the filter: '' @ pattern @ '' is invalid, message: '' @ Error e)),
              tr @ [RegexpCompile pattern])"
    by (simp add: getFiles_def)
  have kept: "fetched (snd ?run) =
        fetched tr @
        concat (map (\<lambda>p.
            map Key (filter (\<lambda>x. \<not> (Contains (Key x) ''/'' \<and> \<not> recursive) \<and> matcher (Key x))
                       (filter (\<lambda>x. \<not> HasSuffix (Key x) ''/'')
                          (contents (if HasPrefix p ''/'' then TrimPrefix p ''/'' else p)))))
          (getPaths args))"
    if h: "compiled E pattern = Inr matcher" "\<forall>t q. objectsOf E t bucket q = Inr (contents q)"
          "fst ?run = Ok"
  proof -
    have mk: "fails E (tr @ [RegexpCompile pattern]) (MkdirAll outdir) = None"
      using h(1,3) by (auto simp: getFiles_def call_def split: option.splits)
    then have run: "?run = ?loop"
      using h(1) by (simp add: getFiles_def call_def)
    then obtain t' where loop: "?loop = (Ok, t')"
      using h(3) by (cases ?loop) auto
    from forEach_collect
           [where f = fetched
              and body = "getFiles_path E matcher bucket outdir flatten recursive",
            OF getFiles_path_fetched [OF h(2)] loop]
    show ?thesis
      using run loop by (simp add: fetched_append)
  qed
  have runs: "fst ?run = Ok"
    if h: "compiled E pattern = Inr matcher" "\<forall>t q. objectsOf E t bucket q = Inr (contents q)"
          "\<forall>t ev. fails E t ev = None" "\<forall>t key. \<exists>c. contentOf E t bucket key = Inr c"
    using h(1,3)
    by (simp add: getFiles_def call_def
                  forEach_succeeds [OF getFiles_path_succeeds [OF h(3,4,2)]])
  from bad getFiles_compiles_once kept runs show ?thesis by blast
qed

theorem getFiles_pattern_filter_witness:
  "getFiles (rejecting (withStore [''a/x.txt'', ''a/y.bin'', ''b/z.txt''])) ''bkt'' ''out'' False True
      ''('' [''a/'', ''/b/''] [] =
     (Failed (Errorf ''the filter: ( is invalid, message: error parsing regexp''),
      [RegexpCompile ''(''])
   \<and> fst (getFiles (matchingTxt (withStore [''a/x.txt'', ''a/y.bin'', ''b/z.txt''])) ''bkt'' ''out''
             False True ''[.]txt$'' [''a/'', ''/b/''] []) = Ok
   \<and> fetched (snd (getFiles (matchingTxt (withStore [''a/x.txt'', ''a/y.bin'', ''b/z.txt'']))
                    ''bkt'' ''out'' False True ''[.]txt$'' [''a/'', ''/b/''] [])) =
       [''a/x.txt'', ''b/z.txt'']"
  using getFiles_pattern_filter
          [of "rejecting (withStore [''a/x.txt'', ''a/y.bin'', ''b/z.txt''])" "''(''"
              "External ''error parsing regexp''" "''bkt''" "''out''" False True
              "[''a/'', ''/b/'']" "[]" "\<lambda>key. True" "\<lambda>q. []"]
        getFiles_pattern_filter
          [of "matchingTxt (withStore [''a/x.txt'', ''a/y.bin'', ''b/z.txt''])" "''[.]txt$''"
              "External ''x''" "''bkt''" "''out''" False True "[''a/'', ''/b/'']" "[]"
              "\<lambda>key. HasSuffix key ''.txt''"
              "\<lambda>q. filter (\<lambda>x. HasPrefix (Key x) q)
                     (map obj [''a/x.txt'', ''a/y.bin'', ''b/z.txt''])"]
  by (simp add: env_defs HasSuffix_def HasPrefix_def TrimPrefix_def getPaths_def)

subsection \<open>C8: creating what already exists\<close>

text \<open>
  C8. The claim: both \<open>createKey\<close> and \<open>createBucket\<close> fail with the already-exists error
  when the resource exists. \<open>createBucket\<close> does. \<open>createKey\<close> reports the existing
  alias to the output formatter and returns \<open>nil\<close>: the command succeeds.
\<close>

theorem createKey_existing_alias_succeeds:
  "createKey (withAliases [\<lparr>AliasName = ''alias/foo'', TargetKeyId = Some ''k1''\<rparr>])
     ''foo'' ''d'' [] = (Ok, [ListAliases, Log [(''alias'', Str ''foo'')]])"
  by (simp add: createKey_def hasKmsAlias_def getKmsAlias_def kmsKeys_def env_defs TrimLeft_def)

text \<open>
  C8, amended. For a name that is empty or does not begin with one of the characters
  a, l, i, s, /: when the provider's list holds the alias \<open>alias/name\<close>, \<open>createKey\<close> reports
  the alias and returns without an error, having called neither the key creation nor
  the alias creation. (For the other names the lookup of the alias is the subject of
  C3; nothing is said about them here.) When the provider's list holds the bucket,
  \<open>createBucket\<close> fails with the already-exists error without calling the bucket
  creation.
\<close>

theorem create_existing_resource:
  "(aliasesOf E tr = Inr aliases \<and> x \<in> set aliases \<and> AliasName x = ''alias/'' @ name \<and>
      (name = [] \<or> hd name \<notin> set ''alias/'') \<longrightarrow>
      createKey E name description tr = (Ok, tr @ [ListAliases, Log [(''alias'', Str name)]]))
   \<and> (bucketsOf E tr = Inr list \<and> bucket \<in> Name ` set list \<longrightarrow>
      createBucket E bucket tr =
        (Failed (Errorf ''the bucket already exists''), tr @ [ListBuckets]))"
proof -
  have k: "createKey E name description tr = (Ok, tr @ [ListAliases, Log [(''alias'', Str name)]])"
    if h: "aliasesOf E tr = Inr aliases" "x \<in> set aliases" "AliasName x = ''alias/'' @ name"
          "name = [] \<or> hd name \<notin> set ''alias/''"
  proof -
    have "TrimLeft (AliasName x) ''alias/'' = name"
      using h(3,4) TrimLeft_alias by simp
    with h(2) obtain a where "firstAlias name aliases = Some a"
      using firstAlias_finds by blast
    then show ?thesis
      using h(1) by (simp add: createKey_def hasKmsAlias_def getKmsAlias_listed)
  qed
  have b: "createBucket E bucket tr =
             (Failed (Errorf ''the bucket already exists''), tr @ [ListBuckets])"
    if "bucketsOf E tr = Inr list" "bucket \<in> Name ` set list"
    using that by (simp add: createBucket_def hasBucket_listed bucketIn_iff)
  from k b show ?thesis by blast
qed

theorem create_existing_resource_witness:
  "createKey (withAliases [\<lparr>AliasName = ''alias/prod'', TargetKeyId = Some ''k1''\<rparr>])
     ''prod'' ''d'' [] = (Ok, [ListAliases, Log [(''alias'', Str ''prod'')]])
   \<and> createBucket (withBucket ''b'' []) ''b'' [] =
       (Failed (Errorf ''the bucket already exists''), [ListBuckets])"
  using create_existing_resource
          [of "withAliases [\<lparr>AliasName = ''alias/prod'', TargetKeyId = Some ''k1''\<rparr>]" "[]"
              "[\<lparr>AliasName = ''alias/prod'', TargetKeyId = Some ''k1''\<rparr>]"
              "\<lparr>AliasName = ''alias/prod'', TargetKeyId = Some ''k1''\<rparr>" "''prod''" "''d''"
              "[]" "''b''"]
        create_existing_resource
          [of "withBucket ''b'' []" "[]" "[]"
              "\<lparr>AliasName = ''alias/prod'', TargetKeyId = Some ''k1''\<rparr>"
              "''prod''" "''d''" "[\<lparr> Name = ''b'', CreationDate = ''then'' \<rparr>]" "''b''"]
  by (simp add: env_defs)

subsection \<open>C9: the temporary file of an inline edit\<close>



subsection \<open>C10: the target key id in the deletion of a key\<close>

text \<open>
  C10. \<open>getKmsAlias\<close> returns the first alias whose trimmed name is the requested one,
  whether or not it has a target key id, while \<open>listKeys\<close> passes over an alias without
  one. Once that alias is found and its deletion has succeeded, \<open>deleteKey\<close> dereferences
  a nil pointer exactly when the alias has no target key id, with and without the
  scheduling of the key deletion. So whenever \<open>deleteKey\<close> returns without an error, the
  first matching alias of the provider's list has a target key id.
\<close>

theorem deleteKey_needs_target_key_id:
  "(aliasesOf E tr = Inr aliases \<and> firstAlias name aliases = Some a \<longrightarrow>
      getKmsAlias E name tr = (Inr a, tr @ [ListAliases]))
   \<and> (TargetKeyId k = None \<longrightarrow> listKeys_step k tr = (Ok, tr))
   \<and> (aliasesOf E tr = Inr aliases \<and> firstAlias name aliases = Some a \<and>
      fails E (tr @ [ListAliases]) (DeleteAlias (AliasName a)) = None \<longrightarrow>
      (fst (deleteKey E name deletion tr) = NilDereference) = (TargetKeyId a = None))
   \<and> (fst (deleteKey E name deletion tr) = Ok \<longrightarrow>
      (\<exists>aliases a kid. aliasesOf E tr = Inr aliases \<and> firstAlias name aliases = Some a \<and>
                       TargetKeyId a = Some kid))"
proof -
  have g: "getKmsAlias E name tr = (Inr a, tr @ [ListAliases])"
    if "aliasesOf E tr = Inr aliases" "firstAlias name aliases = Some a"
    using that by (simp add: getKmsAlias_listed)
  have l: "TargetKeyId k = None \<longrightarrow> listKeys_step k tr = (Ok, tr)"
    by (simp add: listKeys_step_def)
  have p: "(fst (deleteKey E name deletion tr) = NilDereference) = (TargetKeyId a = None)"
    if "aliasesOf E tr = Inr aliases" "firstAlias name aliases = Some a"
       "fails E (tr @ [ListAliases]) (DeleteAlias (AliasName a)) = None"
    using that by (simp add: deleteKey_def getKmsAlias_listed call_def split: option.splits)
  have s: "\<exists>aliases a kid. aliasesOf E tr = Inr aliases \<and> firstAlias name aliases = Some a \<and>
                            TargetKeyId a = Some kid"
    if "fst (deleteKey E name deletion tr) = Ok"
  proof (cases "aliasesOf E tr")
    case (Inl e)
    with that show ?thesis
      by (simp add: deleteKey_def getKmsAlias_def kmsKeys_def)
  next
    case (Inr aliases)
    with that show ?thesis
      by (auto simp: deleteKey_def getKmsAlias_listed call_def split: option.splits if_splits)
  qed
  from g l p s show ?thesis by blast
qed

theorem deleteKey_needs_target_key_id_witness:
  "getKmsAlias (withAliases [\<lparr>AliasName = ''alias/foo'', TargetKeyId = None\<rparr>]) ''foo'' [] =
     (Inr \<lparr>AliasName = ''alias/foo'', TargetKeyId = None\<rparr>, [ListAliases])
   \<and> listKeys_step \<lparr>AliasName = ''alias/foo'', TargetKeyId = None\<rparr> [] = (Ok, [])
   \<and> fst (deleteKey (withAliases [\<lparr>AliasName = ''alias/foo'', TargetKeyId = None\<rparr>])
            ''foo'' True []) = NilDereference
   \<and> fst (deleteKey (withAliases [\<lparr>AliasName = ''alias/foo'', TargetKeyId = None\<rparr>])
            ''foo'' False []) = NilDereference
   \<and> fst (deleteKey (withAliases [\<lparr>AliasName = ''alias/foo'', TargetKeyId = Some ''k1''\<rparr>])
            ''foo'' True []) = Ok"
  using deleteKey_needs_target_key_id
          [of "withAliases [\<lparr>AliasName = ''alias/foo'', TargetKeyId = None\<rparr>]" "[]"
              "[\<lparr>AliasName = ''alias/foo'', TargetKeyId = None\<rparr>]" "''foo''"
              "\<lparr>AliasName = ''alias/foo'', TargetKeyId = None\<rparr>"
              "\<lparr>AliasName = ''alias/foo'', TargetKeyId = None\<rparr>" True]
        deleteKey_needs_target_key_id
          [of "withAliases [\<lparr>AliasName = ''alias/foo'', TargetKeyId = None\<rparr>]" "[]"
              "[\<lparr>AliasName = ''alias/foo'', TargetKeyId = None\<rparr>]" "''foo''"
              "\<lparr>AliasName = ''alias/foo'', TargetKeyId = None\<rparr>"
              "\<lparr>AliasName = ''alias/foo'', TargetKeyId = None\<rparr>" False]
        deleteKey_needs_target_key_id
          [of "withAliases [\<lparr>AliasName = ''alias/foo'', TargetKeyId = Some ''k1''\<rparr>]" "[]"
              "[\<lparr>AliasName = ''alias/foo'', TargetKeyId = Some ''k1''\<rparr>]" "''foo''"
              "\<lparr>AliasName = ''alias/foo'', TargetKeyId = Some ''k1''\<rparr>"
              "\<lparr>AliasName = ''alias/foo'', TargetKeyId = None\<rparr>" True]
  by (simp add: env_defs TrimLeft_def deleteKey_def getKmsAlias_def kmsKeys_def call_def)

end
